theory Spec2Isabelle
  imports Complex_Main "HOL-Library.Word" "HOL-Library.Signed_Division"
begin

section \<open>Data shared by the two servers\<close>

text \<open>
  The two example servers of tool-pywisp, \<^verbatim>\<open>examples/tcp/pc-server/main.cpp\<close> (host) and
  \<^verbatim>\<open>examples/arduino-due/server/arm/server.cpp\<close> (embedded), share the structs
  \<^verbatim>\<open>Transport::benchData\<close> and \<^verbatim>\<open>Transport::trajData\<close>. Their declarations are in
  Transport.h, which is not among the two files: the records have the fields the two files
  use. The times are taken as \<^verbatim>\<open>unsigned long\<close>, like the constants \<^verbatim>\<open>lDt\<close> and
  \<^verbatim>\<open>lKeepalive\<close> they are added to and compared with: a machine word whose width \<open>'w\<close>
  depends on the target (32 bits on the Arduino Due, 32 or 64 on a PC), so every
  definition is polymorphic in it and \<open>+\<close>, \<open>-\<close> wrap around as in C++. The values are
  \<^verbatim>\<open>double\<close>, like \<^verbatim>\<open>dM\<close> and \<^verbatim>\<open>dN\<close>: the type \<open>'d\<close>.
\<close>

record (overloaded) 'w benchData =
  lTime :: "'w word"

record (overloaded) ('w, 'd) trajData =
  dStartValue :: 'd
  lStartTime :: "'w word"
  dEndValue :: 'd
  lEndTime :: "'w word"
  dOutput :: 'd

text \<open>
  The floating-point arithmetic of the target is a parameter of the model: a record of the
  operations the two files use. Nothing is assumed about them (rounding, infinities, NaN),
  so a theorem stated for every \<open>fp\<close> holds whatever the target's arithmetic is.
  \<open>d_of_ulong\<close>, \<open>d_of_int\<close> are the implicit conversions of an \<^verbatim>\<open>unsigned long\<close> (given by
  its value) and of an \<^verbatim>\<open>int\<close> to \<^verbatim>\<open>double\<close>, \<open>d_lit\<close> reads a decimal literal.
\<close>

record 'd double_ops =
  d_add :: "'d \<Rightarrow> 'd \<Rightarrow> 'd"
  d_sub :: "'d \<Rightarrow> 'd \<Rightarrow> 'd"
  d_mul :: "'d \<Rightarrow> 'd \<Rightarrow> 'd"
  d_div :: "'d \<Rightarrow> 'd \<Rightarrow> 'd"
  d_of_ulong :: "nat \<Rightarrow> 'd"
  d_of_int :: "int \<Rightarrow> 'd"
  d_lit :: "rat \<Rightarrow> 'd"

text \<open>The embedded file also uses \<^verbatim>\<open>float\<close> (the type \<open>'f\<close>): casts and a negation.\<close>

record ('d, 'f) float_ops = "'d double_ops" +
  f_of_int :: "int \<Rightarrow> 'f"
  f_neg :: "'f \<Rightarrow> 'f"
  d_of_float :: "'f \<Rightarrow> 'd"
  f_of_double :: "'d \<Rightarrow> 'f"

text \<open>Exact rational arithmetic, to run the model on concrete inputs.\<close>

definition exact :: "(rat, rat) float_ops" where
  "exact = \<lparr>d_add = (+), d_sub = (-), d_mul = (*), d_div = (/),
             d_of_ulong = of_nat, d_of_int = of_int, d_lit = (\<lambda>q. q),
             f_of_int = of_int, f_neg = uminus, d_of_float = (\<lambda>x. x), f_of_double = (\<lambda>x. x)\<rparr>"

section \<open>The host trajectory generator\<close>

text \<open>
  A floating-point division by zero raises nothing in C++; to state that none happens, the
  model reports the one division of \<^verbatim>\<open>fTrajectory\<close> as a fault when its divisor, the
  \<^verbatim>\<open>unsigned long\<close> difference \<^verbatim>\<open>lEndTime - lStartTime\<close>, is zero.
\<close>

datatype fault = DivisionByZero

text \<open>
  \<^verbatim>\<open>fTrajectory\<close> of main.cpp, lines 22 to 34. It reads \<^verbatim>\<open>*_benchData\<close> and writes
  \<^verbatim>\<open>_trajData->dOutput\<close>; the model returns the descriptor after the call.
\<close>

definition fTrajectory_pc ::
  "('d, 'z) double_ops_scheme \<Rightarrow> ('w::len) benchData \<Rightarrow> ('w, 'd) trajData
     \<Rightarrow> fault + ('w, 'd) trajData" where
  "fTrajectory_pc fp b t =
     (if lTime b < lStartTime t then Inr (t\<lparr>dOutput := dStartValue t\<rparr>)
      else if lTime b < lEndTime t then
        (if lEndTime t - lStartTime t = 0 then Inl DivisionByZero
         else
           let dM = d_div fp (d_sub fp (dEndValue t) (dStartValue t))
                      (d_of_ulong fp (unat (lEndTime t - lStartTime t)));
               dN = d_sub fp (dEndValue t) (d_mul fp dM (d_of_ulong fp (unat (lEndTime t))))
           in Inr (t\<lparr>dOutput := d_add fp (d_mul fp dM (d_of_ulong fp (unat (lTime b)))) dN\<rparr>))
      else Inr (t\<lparr>dOutput := dEndValue t\<rparr>))"

section \<open>The embedded sensor reading\<close>

text \<open>
  The board of the Arduino Due as server.cpp uses it: the levels \<^verbatim>\<open>digitalWrite\<close> sets, the
  analog-to-digital converter, whose \<open>k\<close>-th conversion returns \<open>adc k\<close>, and the interrupt
  enable flag set by \<^verbatim>\<open>interrupts()\<close>.
\<close>

record board =
  pins :: "int \<Rightarrow> bool"
  adc :: "nat \<Rightarrow> int"
  conversions :: nat
  irq_enabled :: bool

definition digitalWrite :: "int \<Rightarrow> bool \<Rightarrow> board \<Rightarrow> board" where
  "digitalWrite pin level hw = hw\<lparr>pins := (pins hw)(pin := level)\<rparr>"

definition analogRead :: "int \<Rightarrow> board \<Rightarrow> int \<times> board" where
  "analogRead pin hw = (adc hw (conversions hw), hw\<lparr>conversions := Suc (conversions hw)\<rparr>)"


text \<open>The global variables of server.cpp that \<^verbatim>\<open>Messung\<close> and \<^verbatim>\<open>fTrajectory\<close> touch.\<close>

record 'd globals =
  Ausgang_B :: int
  Ausgang_D :: int
  Eingang_E :: int
  sensorValue :: int
  yGes :: int
  xGes :: int
  x :: 'd
  y :: 'd

text \<open>
  \<^verbatim>\<open>Messung\<close>, lines 27 to 60. In
  \<^verbatim>\<open>((float)yGes*((float)sensorValue-278.0)/(691.0-278.0)-yGes/2+2)*0.001\<close> the casts give
  \<^verbatim>\<open>float\<close>, the literals are \<^verbatim>\<open>double\<close>, so every operation is done in \<^verbatim>\<open>double\<close>;
  \<^verbatim>\<open>yGes/2\<close> is a division of \<^verbatim>\<open>int\<close>, which truncates (\<open>sdiv\<close>). The function returns
  \<^verbatim>\<open>float\<close>: the \<^verbatim>\<open>double\<close> \<^verbatim>\<open>x\<close> is converted.
\<close>

definition Messung ::
  "('d, 'f, 'z) float_ops_scheme \<Rightarrow> 'd globals \<times> board \<Rightarrow> 'f \<times> 'd globals \<times> board" where
  "Messung fp = (\<lambda>(g, hw).
     let hw1 = digitalWrite (Ausgang_B g) True hw;
         hw2 = digitalWrite (Ausgang_D g) False hw1;
         (v1, hw3) = analogRead (Eingang_E g) hw2;
         g1 = g\<lparr>sensorValue := v1\<rparr>;
         g2 = g1\<lparr>y :=
                d_mul fp
                  (d_add fp
                    (d_sub fp
                      (d_div fp
                        (d_mul fp (d_of_float fp (f_of_int fp (yGes g1)))
                           (d_sub fp (d_of_float fp (f_of_int fp (sensorValue g1))) (d_lit fp 278)))
                        (d_sub fp (d_lit fp 691) (d_lit fp 278)))
                      (d_of_int fp (yGes g1 sdiv 2)))
                    (d_of_int fp 2))
                  (d_lit fp (1 / 1000))\<rparr>;
         hw4 = digitalWrite (Ausgang_B g2) False hw3;
         hw5 = digitalWrite (Ausgang_D g2) True hw4;
         (v2, hw6) = analogRead (Eingang_E g2) hw5;
         g3 = g2\<lparr>sensorValue := v2\<rparr>;
         g4 = g3\<lparr>x :=
                d_mul fp
                  (d_add fp
                    (d_add fp
                      (d_div fp
                        (d_mul fp (d_of_float fp (f_neg fp (f_of_int fp (xGes g3))))
                           (d_sub fp (d_of_float fp (f_of_int fp (sensorValue g3))) (d_lit fp 258)))
                        (d_sub fp (d_lit fp 718) (d_lit fp 258)))
                      (d_of_int fp (xGes g3 sdiv 2)))
                    (d_of_int fp 6))
                  (d_lit fp (1 / 1000))\<rparr>
     in (f_of_double fp (x g4), g4, hw6))"

text \<open>
  \<^verbatim>\<open>fTrajectory\<close> of server.cpp, lines 94 to 108: the ramp is commented out; the function
  stores the measurement in the global \<^verbatim>\<open>x\<close> and copies it to \<^verbatim>\<open>_trajData->dOutput\<close>.
\<close>

definition fTrajectory_arm ::
  "('d, 'f, 'z) float_ops_scheme \<Rightarrow> ('w::len) benchData \<Rightarrow> ('w, 'd) trajData
     \<Rightarrow> 'd globals \<times> board \<Rightarrow> ('w, 'd) trajData \<times> 'd globals \<times> board" where
  "fTrajectory_arm fp b t = (\<lambda>(g, hw).
     let (r, g1, hw1) = Messung fp (g, hw);
         g2 = g1\<lparr>x := d_of_float fp r\<rparr>
     in (t\<lparr>dOutput := x g2\<rparr>, g2, hw1))"

section \<open>The transport\<close>

text \<open>
  The class \<^verbatim>\<open>Transport\<close> is declared in Transport.h, which is not among the two files.
  The control loops use its members \<^verbatim>\<open>_benchData\<close>, \<^verbatim>\<open>_trajData\<close> and, on the Due,
  \<^verbatim>\<open>keepaliveTime\<close>, and call \<^verbatim>\<open>runExp\<close>, \<^verbatim>\<open>sendData\<close>, \<^verbatim>\<open>handleFrames\<close> and
  \<^verbatim>\<open>reset\<close>. A frame is kept as the data it is built from: its bytes are the
  transport's own business.
\<close>

type_synonym ('w, 'd) Frame = "'w benchData \<times> ('w, 'd) trajData"

record (overloaded) ('w, 'd) Transport =
  m_benchData :: "'w benchData"
  m_trajData :: "('w, 'd) trajData"
  running :: bool
  inputQueue :: "('w, 'd) Frame list"
  outputQueue :: "('w, 'd) Frame list"

record (overloaded) ('w, 'd) Transport_arm = "('w, 'd) Transport" +
  keepaliveTime :: "'w word"




section \<open>The control loops\<close>

text \<open>
  To state in which order a tick does its work, each state carries the list of the
  statements executed so far: a ghost field, which no statement reads.
  \<open>Advance v\<close> is \<^verbatim>\<open>lTime += lDt\<close> with the new value \<open>v\<close>; \<open>KeepaliveCheck v k\<close> is the
  \<^verbatim>\<open>if\<close> under "handle keepalive signal", reached with \<^verbatim>\<open>lTime\<close> \<open>= v\<close> and
  \<^verbatim>\<open>keepaliveTime\<close> \<open>= k\<close>.
\<close>

datatype 't step =
    Interrupts
  | HandleFrames
  | RunExp bool
  | Advance 't
  | Trajectory
  | SendData
  | KeepaliveCheck 't 't
  | Reset




subsection \<open>Host\<close>



subsection \<open>Embedded\<close>

record (overloaded) ('w, 'd) arm_state =
  transport :: "('w, 'd) Transport_arm"
  globals :: "'d globals"
  hardware :: board
  steps :: "'w word step list"



section \<open>Auxiliary definitions\<close>

text \<open>
  The calibration of the second conversion in \<^verbatim>\<open>Messung\<close>, as a function of \<^verbatim>\<open>xGes\<close> and
  of the value read.
\<close>

definition x_calibration :: "('d, 'f, 'z) float_ops_scheme \<Rightarrow> int \<Rightarrow> int \<Rightarrow> 'd" where
  "x_calibration fp w v =
     d_mul fp
       (d_add fp
         (d_add fp
           (d_div fp
             (d_mul fp (d_of_float fp (f_neg fp (f_of_int fp w)))
                (d_sub fp (d_of_float fp (f_of_int fp v)) (d_lit fp 258)))
             (d_sub fp (d_lit fp 718) (d_lit fp 258)))
           (d_of_int fp (w sdiv 2)))
         (d_of_int fp 6))
       (d_lit fp (1 / 1000))"





definition ramp_5_10 :: "(32, rat) trajData" where
  "ramp_5_10 = \<lparr>dStartValue = 1, lStartTime = 5, dEndValue = 9, lEndTime = 10, dOutput = 0\<rparr>"



section \<open>The host trajectory generator: theorems\<close>

lemma fTrajectory_pc_divisor:
  "\<not> lTime b < lStartTime t \<Longrightarrow> lTime b < lEndTime t \<Longrightarrow> lEndTime t - lStartTime t \<noteq> 0"
  by auto

lemma fTrajectory_pc_no_fault: "fTrajectory_pc fp b t \<noteq> Inl e"
  using fTrajectory_pc_divisor [of b t]
  by (simp add: fTrajectory_pc_def Let_def)


text \<open>
  Claim C1, as amended. For every descriptor with \<open>lStartTime = lEndTime\<close> and every
  \<open>lTime\<close>, \<^verbatim>\<open>fTrajectory\<close> divides by no zero: the interpolation branch, the only one that
  divides, is not taken. The output is \<open>dEndValue\<close> once \<open>lTime\<close> has reached the common
  time, and \<open>dStartValue\<close> before it.
\<close>

theorem C1_equal_times:
  "lStartTime t = lEndTime t \<Longrightarrow>
     \<not> (\<not> lTime b < lStartTime t \<and> lTime b < lEndTime t) \<and>
     fTrajectory_pc fp b t =
       Inr (t\<lparr>dOutput := (if lTime b < lStartTime t then dStartValue t else dEndValue t)\<rparr>)"
  by (simp add: fTrajectory_pc_def)

theorem C1_equal_times_witness:
  "fTrajectory_pc exact \<lparr>lTime = (7 :: 32 word)\<rparr>
     \<lparr>dStartValue = 0, lStartTime = 5, dEndValue = 1, lEndTime = 5, dOutput = 7\<rparr>
   = Inr \<lparr>dStartValue = 0, lStartTime = 5, dEndValue = 1, lEndTime = 5, dOutput = 1\<rparr>"
  using C1_equal_times
    [of "\<lparr>dStartValue = 0, lStartTime = 5, dEndValue = 1, lEndTime = 5, dOutput = 7\<rparr>"
        "\<lparr>lTime = (7 :: 32 word)\<rparr>" exact]
  by simp

text \<open>
  The claim as stated promises \<open>dEndValue\<close> for every \<open>lTime\<close>. With both times 5 and
  \<open>lTime = 0\<close> the first branch is taken: the output is \<open>dStartValue = 0\<close>, not
  \<open>dEndValue = 1\<close>.
\<close>

theorem C1_counterexample:
  "fTrajectory_pc exact \<lparr>lTime = (0 :: 32 word)\<rparr>
     \<lparr>dStartValue = 0, lStartTime = 5, dEndValue = 1, lEndTime = 5, dOutput = 7\<rparr>
   = Inr \<lparr>dStartValue = 0, lStartTime = 5, dEndValue = 1, lEndTime = 5, dOutput = 0\<rparr>"
  by (simp add: fTrajectory_pc_def)

text \<open>
  Claim C4. For every descriptor with \<open>lStartTime < lEndTime\<close>: while \<open>lTime < lStartTime\<close>
  the output is \<open>dStartValue\<close> itself, and from \<open>lTime \<ge> lEndTime\<close> on it is \<open>dEndValue\<close>
  itself. No arithmetic is done on either value.
\<close>

theorem C4_holds_endpoints:
  "lStartTime t < lEndTime t \<Longrightarrow>
     (lTime b < lStartTime t \<longrightarrow> fTrajectory_pc fp b t = Inr (t\<lparr>dOutput := dStartValue t\<rparr>)) \<and>
     (lEndTime t \<le> lTime b \<longrightarrow> fTrajectory_pc fp b t = Inr (t\<lparr>dOutput := dEndValue t\<rparr>))"
  by (auto simp add: fTrajectory_pc_def)

theorem C4_holds_endpoints_witness:
  "fTrajectory_pc exact \<lparr>lTime = 2\<rparr> ramp_5_10 = Inr (ramp_5_10\<lparr>dOutput := 1\<rparr>) \<and>
   fTrajectory_pc exact \<lparr>lTime = 20\<rparr> ramp_5_10 = Inr (ramp_5_10\<lparr>dOutput := 9\<rparr>)"
  using C4_holds_endpoints [of ramp_5_10 "\<lparr>lTime = 2\<rparr>" exact]
    C4_holds_endpoints [of ramp_5_10 "\<lparr>lTime = 20\<rparr>" exact]
  by (simp add: ramp_5_10_def)

section \<open>The embedded sensor reading: theorems\<close>

lemma Messung_result:
  "fst (Messung fp (g, hw)) =
     f_of_double fp (x_calibration fp (xGes g) (adc hw (Suc (conversions hw))))"
  by (simp add: Messung_def x_calibration_def digitalWrite_def analogRead_def Let_def)



lemma fTrajectory_arm_traj:
  "fst (fTrajectory_arm fp b t (g, hw)) = t\<lparr>dOutput := d_of_float fp (fst (Messung fp (g, hw)))\<rparr>"
  by (simp add: fTrajectory_arm_def split_def Let_def)



text \<open>
  Claim C10. On the Due the value written to \<open>dOutput\<close> is the value \<^verbatim>\<open>Messung\<close> returns,
  converted back to \<^verbatim>\<open>double\<close>. Two calls that start from the same globals and the same
  board (so that they read the same conversions) write the same \<open>dOutput\<close>, whatever
  \<open>lTime\<close> and the descriptors \<open>t1\<close>, \<open>t2\<close> are: the value is the calibration of the second
  conversion, a function of that reading and of \<^verbatim>\<open>xGes\<close> alone.
\<close>

theorem C10_output_is_measurement:
  "dOutput (fst (fTrajectory_arm fp b1 t1 (g, hw))) = d_of_float fp (fst (Messung fp (g, hw))) \<and>
   dOutput (fst (fTrajectory_arm fp b2 t2 (g, hw))) = dOutput (fst (fTrajectory_arm fp b1 t1 (g, hw))) \<and>
   dOutput (fst (fTrajectory_arm fp b1 t1 (g, hw))) =
     d_of_float fp (f_of_double fp (x_calibration fp (xGes g) (adc hw (Suc (conversions hw)))))"
  by (simp add: fTrajectory_arm_traj Messung_result)



section \<open>The control loops: theorems\<close>














end
